theory Spec2Isabelle
  imports Complex_Main "HOL-Library.Sublist"
begin

section \<open>The claims explorer: one render pass of \<open>app.py\<close>\<close>

text \<open>
  \<open>app.py\<close> is a script that the rendering host runs from top to bottom on every user
  interaction.  One run (a render pass) is modelled as a function of
  \<^item> the environment \<open>env\<close>: whether \<open>sql.connect\<close> succeeds, what the warehouse answers to
    a SQL string, and the number conversions of the host language;
  \<^item> the widget state \<open>ui\<close>: the three filter texts and the three select-box choices;
  \<^item> whether the connection memoised by \<open>st.cache_resource\<close> already exists.
  It returns how the pass ended, the calls made to the rendering host and to the
  warehouse, in order, and the new state of the connection cache.

  A string is the list of the bytes of its UTF-8 form; for such strings one is a
  contiguous part of another as bytes exactly when it is as characters.  The pictographs
  that prefix the page title, the sub-header and the three filter labels in the source
  are left out of the string constants below.  Loading the configuration
  (\<open>Config()\<close>) is taken to succeed.
\<close>

subsection \<open>Errors and outcomes\<close>

datatype pyerr =
    ConnectionError | QueryExecutionError
  | IndexError | KeyError | AttributeError | TypeError | ValueError
  | StreamlitAPIException

text \<open>A pass ends early by \<open>st.stop()\<close> or by an uncaught exception.\<close>

datatype halt = Stopped | Raised pyerr

definition ebind :: "pyerr + 'a \<Rightarrow> ('a \<Rightarrow> pyerr + 'b) \<Rightarrow> pyerr + 'b" where
  "ebind r f = (case r of Inl e \<Rightarrow> Inl e | Inr x \<Rightarrow> f x)"

subsection \<open>Tabular results\<close>

text \<open>
  A cell is a missing value (\<open>None\<close>/\<open>NaN\<close>), a string, an integer, a floating-point
  number (by its value) or a boolean.  A data
  frame is the list of its columns in positional order, each a label with its values;
  all columns of a frame have the same length.  \<open>pd.DataFrame()\<close> is \<open>[]\<close>.
\<close>

datatype cell = Null | Str string | IntV int | Num rat | Bool bool

type_synonym column = "string \<times> cell list"
type_synonym dataframe = "column list"

text \<open>\<open>df[label]\<close> is a series when the label names one column and a frame when it names several.\<close>

datatype selection = Series "cell list" | Frame dataframe

definition df_empty :: "dataframe \<Rightarrow> bool" where
  "df_empty df = (case df of [] \<Rightarrow> True | (_, xs) # _ \<Rightarrow> xs = [])"

definition columns :: "dataframe \<Rightarrow> string list" where
  "columns df = map fst df"

definition columns_at :: "dataframe \<Rightarrow> nat \<Rightarrow> pyerr + string" where
  "columns_at df i = (if i < length (columns df) then Inr (columns df ! i) else Inl IndexError)"

definition getitem :: "dataframe \<Rightarrow> string \<Rightarrow> pyerr + selection" where
  "getitem df label =
     (case filter (\<lambda>c. fst c = label) df of
        [] \<Rightarrow> Inl KeyError
      | [c] \<Rightarrow> Inr (Series (snd c))
      | c # d # cs \<Rightarrow> Inr (Frame (c # d # cs)))"

text \<open>\<open>.dropna().tolist()\<close>: a frame has no \<open>tolist\<close>.\<close>

definition dropna_tolist :: "selection \<Rightarrow> pyerr + cell list" where
  "dropna_tolist sel =
     (case sel of Series xs \<Rightarrow> Inr (filter (\<lambda>x. x \<noteq> Null) xs) | Frame _ \<Rightarrow> Inl AttributeError)"

text \<open>\<open>sel[0]\<close>: the value at row label 0 of a series; a frame has no column labelled 0.\<close>

definition item0 :: "selection \<Rightarrow> pyerr + cell" where
  "item0 sel = (case sel of Series (x # _) \<Rightarrow> Inr x | _ \<Rightarrow> Inl KeyError)"

text \<open>
  \<open>df.set_index(key)\<close>: the columns labelled \<open>key\<close> become the levels of the index (one
  level when the label names one column) and leave the columns.
\<close>

definition set_index :: "dataframe \<Rightarrow> string \<Rightarrow> pyerr + cell list list \<times> dataframe" where
  "set_index df key =
     (case filter (\<lambda>c. fst c = key) df of
        [] \<Rightarrow> Inl KeyError
      | c # cs \<Rightarrow> Inr (map snd (c # cs), filter (\<lambda>c. fst c \<noteq> key) df))"

text \<open>\<open>df[[l1, l2, ...]]\<close>: the columns with these labels, in the order of the labels.\<close>

definition select_cols :: "dataframe \<Rightarrow> string list \<Rightarrow> pyerr + dataframe" where
  "select_cols df labels =
     (if list_all (\<lambda>l. l \<in> set (columns df)) labels
      then Inr (concat (map (\<lambda>l. filter (\<lambda>c. fst c = l) df) labels))
      else Inl KeyError)"

subsection \<open>Strings\<close>

definition lower_char :: "char \<Rightarrow> char" where
  "lower_char c =
     (case map_of (zip ''ABCDEFGHIJKLMNOPQRSTUVWXYZ'' ''abcdefghijklmnopqrstuvwxyz'') c of
        Some d \<Rightarrow> d | None \<Rightarrow> c)"

text \<open>Lower case of a string of ASCII characters: \<open>A\<close> to \<open>Z\<close> become \<open>a\<close> to \<open>z\<close>.\<close>

definition ascii_lower :: "string \<Rightarrow> string" where
  "ascii_lower s = map lower_char s"



text \<open>\<open>needle in hay\<close> on strings: a left-to-right search for an occurrence.\<close>

fun py_in :: "string \<Rightarrow> string \<Rightarrow> bool" where
  "py_in needle [] = (needle = [])"
| "py_in needle (h # hs) = (prefix needle (h # hs) \<or> py_in needle hs)"

text \<open>
  The comprehension \<open>[c for c in xs if flt.lower() in c.lower()]\<close>.  Only a string has
  \<open>lower\<close>; any other value in the list raises \<open>AttributeError\<close>.
\<close>

fun filter_names :: "(string \<Rightarrow> string) \<Rightarrow> string \<Rightarrow> cell list \<Rightarrow> pyerr + string list" where
  "filter_names L flt [] = Inr []"
| "filter_names L flt (Str c # cs) =
     (case filter_names L flt cs of
        Inl e \<Rightarrow> Inl e
      | Inr r \<Rightarrow> Inr (if py_in (L flt) (L c) then c # r else r))"
| "filter_names L flt (_ # cs) = Inl AttributeError"


definition filtered_catalogs ::
  "(string \<Rightarrow> string) \<Rightarrow> string \<Rightarrow> cell list \<Rightarrow> pyerr + string list" where
  "filtered_catalogs L catalog_filter catalog_list = filter_names L catalog_filter catalog_list"

definition filtered_schemas ::
  "(string \<Rightarrow> string) \<Rightarrow> string \<Rightarrow> cell list \<Rightarrow> pyerr + string list" where
  "filtered_schemas L schema_filter schema_list = filter_names L schema_filter schema_list"

definition filtered_tables ::
  "(string \<Rightarrow> string) \<Rightarrow> string \<Rightarrow> cell list \<Rightarrow> pyerr + string list" where
  "filtered_tables L table_filter table_list = filter_names L table_filter table_list"

text \<open>\<open>xs.index(x)\<close>: the first position of \<open>x\<close>.\<close>

fun py_index :: "string list \<Rightarrow> string \<Rightarrow> pyerr + nat" where
  "py_index [] x = Inl ValueError"
| "py_index (y # ys) x =
     (if y = x then Inr 0 else (case py_index ys x of Inl e \<Rightarrow> Inl e | Inr i \<Rightarrow> Inr (Suc i)))"

definition default_idx :: "string list \<Rightarrow> pyerr + nat" where
  "default_idx filtered =
     (if ''claims_enriched'' \<in> set filtered then py_index filtered ''claims_enriched'' else Inr 0)"

subsection \<open>The environment and the widget state\<close>

text \<open>
  \<open>connect\<close> is the error of \<open>sql.connect\<close>, if any.  \<open>execute\<close> is what
  \<open>cursor.execute(query)\<close> followed by \<open>fetchall_arrow().to_pandas()\<close> gives.
  \<open>str_lower\<close> is \<open>s.lower()\<close>, \<open>py_int\<close> is \<open>int(x)\<close>, \<open>fmt_money\<close> is
  \<open>f"{x:,.2f}"\<close> and \<open>fmt_pct\<close> is \<open>f"{float(x)*100:.1f}"\<close>: the case mapping and the
  number formatting of the host language are parameters.
\<close>

record env =
  connect :: "pyerr option"
  execute :: "string \<Rightarrow> pyerr + dataframe option"
  str_lower :: "string \<Rightarrow> string"
  py_int :: "cell \<Rightarrow> pyerr + int"
  fmt_money :: "cell \<Rightarrow> pyerr + string"
  fmt_pct :: "cell \<Rightarrow> pyerr + string"

text \<open>
  The text of each \<open>st.text_input\<close> and the position the user picked in each
  \<open>st.selectbox\<close> (\<open>None\<close>: no pick yet).
\<close>

record ui =
  catalog_filter :: string
  catalog_select :: "nat option"
  schema_filter :: string
  schema_select :: "nat option"
  table_filter :: string
  table_select :: "nat option"

subsection \<open>Calls to the rendering host and the warehouse\<close>

datatype metric_value = MInt int | MStr string

datatype event =
    PageConfig
  | StTitle string
  | StColumns nat
  | RunQuery string
  | StError string
  | StWarning string
  | StInfo string
  | TextInput string
  | Selectbox string "string list" nat
  | Subheader string
  | Markdown string
  | StDataframe dataframe
  | Metric string metric_value
  | BarChartXY dataframe string string
  | BarChart "cell list list" selection
  | LineChart "cell list list" dataframe

subsection \<open>The script as state passing\<close>

text \<open>
  A piece of the script takes the state of the connection cache and returns its value or
  the reason it ended the pass, the calls it made, and the new state of the cache.
\<close>

type_synonym 'a script = "bool \<Rightarrow> (halt + 'a) \<times> event list \<times> bool"

definition ret :: "'a \<Rightarrow> 'a script" where
  "ret x = (\<lambda>cached. (Inr x, [], cached))"

definition bnd :: "'a script \<Rightarrow> ('a \<Rightarrow> 'b script) \<Rightarrow> 'b script" where
  "bnd m f = (\<lambda>cached.
     (case m cached of
        (Inl h, es, cached') \<Rightarrow> (Inl h, es, cached')
      | (Inr x, es, cached') \<Rightarrow>
          (case f x cached' of (r, es', cached'') \<Rightarrow> (r, es @ es', cached''))))"

definition emit :: "event \<Rightarrow> unit script" where
  "emit e = (\<lambda>cached. (Inr (), [e], cached))"

definition halt_with :: "halt \<Rightarrow> 'a script" where
  "halt_with h = (\<lambda>cached. (Inl h, [], cached))"

definition stop :: "'a script" where
  "stop = halt_with Stopped"

definition lift :: "pyerr + 'a \<Rightarrow> 'a script" where
  "lift r = (case r of Inl e \<Rightarrow> halt_with (Raised e) | Inr x \<Rightarrow> ret x)"

text \<open>\<open>get_connection\<close> under \<open>st.cache_resource\<close>: connect once, then reuse.\<close>

definition get_connection :: "env \<Rightarrow> unit script" where
  "get_connection E = (\<lambda>cached.
     if cached then (Inr (), [], True)
     else (case connect E of
             None \<Rightarrow> (Inr (), [], True)
           | Some e \<Rightarrow> (Inl (Raised e), [], False)))"

text \<open>\<open>result if result is not None else pd.DataFrame()\<close>.\<close>

definition result_frame :: "dataframe option \<Rightarrow> dataframe" where
  "result_frame result = (case result of Some df \<Rightarrow> df | None \<Rightarrow> [])"

definition run_query :: "env \<Rightarrow> string \<Rightarrow> dataframe script" where
  "run_query E query =
     bnd (get_connection E) (\<lambda>_.
     bnd (emit (RunQuery query)) (\<lambda>_.
     bnd (lift (execute E query)) (\<lambda>result.
     ret (result_frame result))))"

text \<open>The warehouse answers a query without error and with an empty frame.\<close>

definition empty_result :: "env \<Rightarrow> string \<Rightarrow> bool" where
  "empty_result E query =
     (case execute E query of Inl _ \<Rightarrow> False | Inr result \<Rightarrow> df_empty (result_frame result))"

text \<open>A connection can be had: one is memoised, or connecting succeeds.\<close>

definition available :: "env \<Rightarrow> bool \<Rightarrow> bool" where
  "available E cached = (cached \<or> connect E = None)"

definition text_input :: "string \<Rightarrow> string \<Rightarrow> string script" where
  "text_input label current = bnd (emit (TextInput label)) (\<lambda>_. ret current)"

text \<open>
  \<open>st.selectbox(label, options, index)\<close> returns the option the user picked, the option
  at \<open>index\<close> when there is no pick among the options, and \<open>None\<close> when there is no
  option; an index past the options is refused.
\<close>

definition selectbox_value :: "string list \<Rightarrow> nat \<Rightarrow> nat option \<Rightarrow> string option" where
  "selectbox_value options idx pick =
     (if options = [] then None
      else (case pick of
              Some i \<Rightarrow> if i < length options then Some (options ! i) else Some (options ! idx)
            | None \<Rightarrow> Some (options ! idx)))"

definition selectbox :: "string \<Rightarrow> string list \<Rightarrow> nat \<Rightarrow> nat option \<Rightarrow> string option script" where
  "selectbox label options idx pick =
     (if options \<noteq> [] \<and> length options \<le> idx then halt_with (Raised StreamlitAPIException)
      else bnd (emit (Selectbox label options idx)) (\<lambda>_. ret (selectbox_value options idx pick)))"

text \<open>Truth value of an optional string: \<open>None\<close> and \<open>""\<close> are false.\<close>

definition truthy :: "string option \<Rightarrow> bool" where
  "truthy v = (case v of None \<Rightarrow> False | Some s \<Rightarrow> s \<noteq> [])"

text \<open>
  A piece of the script is transparent to the connection cache when it leaves a memoised
  connection in place and, started without one, either ends the pass with still no
  connection or does exactly what it does with one.
\<close>

definition cache_transparent :: "'a script \<Rightarrow> bool" where
  "cache_transparent m =
     (snd (snd (m True)) \<and>
      (snd (snd (m False)) \<or> \<not> isl (fst (m False)) \<longrightarrow>
         m True = (fst (m False), fst (snd (m False)), True)))"

subsection \<open>Selectors row\<close>

definition catalog_list :: "dataframe \<Rightarrow> pyerr + cell list" where
  "catalog_list catalogs_df =
     ebind (columns_at catalogs_df 0) (\<lambda>catalog_col.
     ebind (getitem catalogs_df catalog_col) dropna_tolist)"

definition catalog_stage :: "env \<Rightarrow> ui \<Rightarrow> string option script" where
  "catalog_stage E U =
     bnd (run_query E ''SHOW CATALOGS'') (\<lambda>catalogs_df.
     bnd (if df_empty catalogs_df
          then bnd (emit (StError ''No catalogs available; check permissions.'')) (\<lambda>_. stop)
          else ret ()) (\<lambda>_.
     bnd (lift (catalog_list catalogs_df)) (\<lambda>cl.
     bnd (text_input ''Catalog filter'' (catalog_filter U)) (\<lambda>flt.
     bnd (lift (filtered_catalogs (str_lower E) flt cl)) (\<lambda>filtered.
     bnd (if filtered = []
          then bnd (emit (StWarning ''No catalogs match.'')) (\<lambda>_. stop)
          else ret ()) (\<lambda>_.
     selectbox ''Catalog'' filtered 0 (catalog_select U)))))))"

definition schema_list :: "dataframe \<Rightarrow> pyerr + cell list" where
  "schema_list schemas_df =
     ebind (columns_at schemas_df 0) (\<lambda>schema_col.
     ebind (getitem schemas_df schema_col) dropna_tolist)"

definition show_schemas :: "string \<Rightarrow> string" where
  "show_schemas selected_catalog = ''SHOW SCHEMAS IN '' @ selected_catalog"

definition schema_stage :: "env \<Rightarrow> ui \<Rightarrow> string option \<Rightarrow> string option script" where
  "schema_stage E U selected_catalog =
     (if truthy selected_catalog then
        bnd (run_query E (show_schemas (the selected_catalog))) (\<lambda>schemas_df.
        bnd (if df_empty schemas_df
             then bnd (emit (StError ''No schemas found.'')) (\<lambda>_. stop)
             else ret ()) (\<lambda>_.
        bnd (lift (schema_list schemas_df)) (\<lambda>sl.
        bnd (text_input ''Schema filter'' (schema_filter U)) (\<lambda>flt.
        bnd (lift (filtered_schemas (str_lower E) flt sl)) (\<lambda>filtered.
        bnd (if filtered = []
             then bnd (emit (StWarning ''No schemas match.'')) (\<lambda>_. stop)
             else ret ()) (\<lambda>_.
        selectbox ''Schema'' filtered 0 (schema_select U)))))))
      else ret None)"

definition tcol :: "dataframe \<Rightarrow> pyerr + string" where
  "tcol tables_df =
     (if ''tableName'' \<in> set (columns tables_df) then Inr ''tableName''
      else columns_at tables_df 1)"

definition table_list :: "dataframe \<Rightarrow> pyerr + cell list" where
  "table_list tables_df =
     ebind (tcol tables_df) (\<lambda>tc.
     ebind (getitem tables_df tc) dropna_tolist)"

definition show_tables :: "string \<Rightarrow> string \<Rightarrow> string" where
  "show_tables selected_catalog selected_schema =
     ''SHOW TABLES IN '' @ selected_catalog @ ''.'' @ selected_schema"

definition table_stage ::
  "env \<Rightarrow> ui \<Rightarrow> string option \<Rightarrow> string option \<Rightarrow> string option script" where
  "table_stage E U selected_catalog selected_schema =
     (if truthy selected_catalog \<and> truthy selected_schema then
        bnd (run_query E (show_tables (the selected_catalog) (the selected_schema))) (\<lambda>tables_df.
        bnd (if df_empty tables_df
             then bnd (emit (StWarning ''No tables in this schema.'')) (\<lambda>_. stop)
             else ret ()) (\<lambda>_.
        bnd (lift (table_list tables_df)) (\<lambda>tl.
        bnd (text_input ''Table filter'' (table_filter U)) (\<lambda>flt.
        bnd (lift (filtered_tables (str_lower E) flt tl)) (\<lambda>filtered.
        bnd (if filtered = []
             then bnd (emit (StWarning ''No tables match.'')) (\<lambda>_. stop)
             else ret ()) (\<lambda>_.
        bnd (lift (default_idx filtered)) (\<lambda>idx.
        selectbox ''Table'' filtered idx (table_select U))))))))
      else ret None)"

subsection \<open>Query texts of the analytics panels\<close>

definition nl :: string where
  "nl = [CHR 0x0A]"

definition table_fqn :: "string \<Rightarrow> string \<Rightarrow> string \<Rightarrow> string" where
  "table_fqn selected_catalog selected_schema selected_table =
     selected_catalog @ ''.'' @ selected_schema @ ''.'' @ selected_table"

definition preview_q :: "string \<Rightarrow> string" where
  "preview_q fqn = ''SELECT * FROM '' @ fqn @ '' LIMIT 100''"

definition kpi_query :: "string \<Rightarrow> string" where
  "kpi_query fqn = concat
     [nl, ''        SELECT '',
      nl, ''            COUNT(*) AS total_claims,'',
      nl, ''            SUM(COALESCE(total_charge, 0)) AS total_charges,'',
      nl, ''            COUNT(DISTINCT member_id) AS distinct_members,'',
      nl, ''            COUNT(DISTINCT provider_id) AS distinct_providers,'',
      nl, ''            SUM(CASE WHEN claim_status = 'denied' THEN 1 ELSE 0 END)/COUNT(*) AS denial_rate'',
      nl, ''        FROM '', fqn,
      nl, ''    '']"

definition status_q :: "string \<Rightarrow> string" where
  "status_q fqn =
     ''SELECT claim_status, COUNT(*) as n_claims FROM '' @ fqn @ '' GROUP BY claim_status''"

definition monthly_trend_q :: "string \<Rightarrow> string" where
  "monthly_trend_q fqn = concat
     [nl, ''        SELECT substr(claim_date,1,7) as month, SUM(total_charge) as charges,'',
      nl, ''               SUM(CASE WHEN claim_status='denied' THEN total_charge ELSE 0 END) as denied_amt'',
      nl, ''        FROM '', fqn, '' GROUP BY month ORDER BY month'',
      nl, ''    '']"

definition denial_reason_q :: "string \<Rightarrow> string" where
  "denial_reason_q fqn = concat
     [nl, ''        SELECT diagnosis_desc, COUNT(*) as denied_claims'',
      nl, ''        FROM '', fqn,
      nl, ''        WHERE claim_status='denied'', [CHR 0x27],
      nl, ''        GROUP BY diagnosis_desc'',
      nl, ''        ORDER BY denied_claims DESC LIMIT 10'',
      nl, ''    '']"

definition denial_by_provider_q :: "string \<Rightarrow> string" where
  "denial_by_provider_q fqn = concat
     [nl, ''        SELECT provider_name,'',
      nl, ''               SUM(CASE WHEN claim_status='denied' THEN 1 ELSE 0 END)/COUNT(*) as denial_rate,'',
      nl, ''               COUNT(*) as total'',
      nl, ''        FROM '', fqn,
      nl, ''        GROUP BY provider_name HAVING total >= 3'',
      nl, ''        ORDER BY denial_rate DESC LIMIT 10'',
      nl, ''    '']"

definition diag_q :: "string \<Rightarrow> string" where
  "diag_q fqn = concat
     [nl, ''        SELECT diagnosis_desc, COUNT(*) as n_claims, SUM(total_charge) as charges'',
      nl, ''        FROM '', fqn,
      nl, ''        GROUP BY diagnosis_desc ORDER BY charges DESC LIMIT 10'',
      nl, ''    '']"

definition prov_q :: "string \<Rightarrow> string" where
  "prov_q fqn = concat
     [nl, ''        SELECT provider_name, SUM(total_charge) as charges, COUNT(*) as n_claims'',
      nl, ''        FROM '', fqn,
      nl, ''        GROUP BY provider_name ORDER BY charges DESC LIMIT 10'',
      nl, ''    '']"

definition outlier_q :: "string \<Rightarrow> string" where
  "outlier_q fqn = concat
     [nl, ''        SELECT *'',
      nl, ''        FROM '', fqn,
      nl, ''        WHERE total_charge > ('',
      nl, ''            SELECT AVG(total_charge) + 3*STDDEV(total_charge) FROM '', fqn,
      nl, ''        )'',
      nl, ''        ORDER BY total_charge DESC LIMIT 10'',
      nl, ''    '']"

subsection \<open>Data preview and analytics panels\<close>

definition preview_panel :: "env \<Rightarrow> string \<Rightarrow> unit script" where
  "preview_panel E fqn =
     bnd (run_query E (preview_q fqn)) (\<lambda>preview_df.
     if \<not> df_empty preview_df then emit (StDataframe preview_df)
     else emit (StInfo ''No data found.''))"

text \<open>\<open>kpi[label][0]\<close>.\<close>

definition kpi_value :: "dataframe \<Rightarrow> string \<Rightarrow> pyerr + cell" where
  "kpi_value kpi label = ebind (getitem kpi label) item0"

definition kpi_panel :: "env \<Rightarrow> string \<Rightarrow> unit script" where
  "kpi_panel E fqn =
     bnd (run_query E (kpi_query fqn)) (\<lambda>kpi.
     bnd (emit (StColumns 5)) (\<lambda>_.
     bnd (lift (ebind (kpi_value kpi ''total_claims'') (py_int E))) (\<lambda>v1.
     bnd (emit (Metric ''Total Claims'' (MInt v1))) (\<lambda>_.
     bnd (lift (ebind (kpi_value kpi ''total_charges'') (fmt_money E))) (\<lambda>v2.
     bnd (emit (Metric ''Total Charges'' (MStr (''$'' @ v2)))) (\<lambda>_.
     bnd (lift (ebind (kpi_value kpi ''distinct_members'') (py_int E))) (\<lambda>v3.
     bnd (emit (Metric ''Unique Members'' (MInt v3))) (\<lambda>_.
     bnd (lift (ebind (kpi_value kpi ''distinct_providers'') (py_int E))) (\<lambda>v4.
     bnd (emit (Metric ''Unique Providers'' (MInt v4))) (\<lambda>_.
     bnd (lift (ebind (kpi_value kpi ''denial_rate'') (fmt_pct E))) (\<lambda>v5.
     emit (Metric ''Denial Rate'' (MStr (v5 @ ''%''))))))))))))))"

definition status_panel :: "env \<Rightarrow> string \<Rightarrow> unit script" where
  "status_panel E fqn =
     bnd (run_query E (status_q fqn)) (\<lambda>status_df.
     bnd (emit (Markdown ''#### Claims by Status'')) (\<lambda>_.
     if \<not> df_empty status_df then emit (BarChartXY status_df ''claim_status'' ''n_claims'')
     else emit (StInfo ''No claims status data.'')))"

definition trend_panel :: "env \<Rightarrow> string \<Rightarrow> unit script" where
  "trend_panel E fqn =
     bnd (run_query E (monthly_trend_q fqn)) (\<lambda>trend_df.
     bnd (emit (Markdown ''#### Monthly Charges & Denials'')) (\<lambda>_.
     if \<not> df_empty trend_df then
       bnd (lift (set_index trend_df ''month'')) (\<lambda>(months, rest).
       bnd (lift (select_cols rest [''charges'', ''denied_amt''])) (\<lambda>series.
       emit (LineChart months series)))
     else emit (StInfo ''No trend data.'')))"

definition denial_reason_panel :: "env \<Rightarrow> string \<Rightarrow> unit script" where
  "denial_reason_panel E fqn =
     bnd (run_query E (denial_reason_q fqn)) (\<lambda>denial_reason_df.
     bnd (emit (Markdown ''#### Top Denial Reasons (Diagnosis)'')) (\<lambda>_.
     if \<not> df_empty denial_reason_df
     then emit (BarChartXY denial_reason_df ''diagnosis_desc'' ''denied_claims'')
     else emit (StInfo ''No denials by reason.'')))"

definition denial_by_provider_panel :: "env \<Rightarrow> string \<Rightarrow> unit script" where
  "denial_by_provider_panel E fqn =
     bnd (run_query E (denial_by_provider_q fqn)) (\<lambda>denial_by_provider.
     bnd (emit (Markdown ''#### Providers with Highest Denial Rate'')) (\<lambda>_.
     if \<not> df_empty denial_by_provider then
       bnd (lift (set_index denial_by_provider ''provider_name'')) (\<lambda>(providers, rest).
       bnd (lift (getitem rest ''denial_rate'')) (\<lambda>rates.
       emit (BarChart providers rates)))
     else emit (StInfo ''No denial/provider data.'')))"

definition diag_panel :: "env \<Rightarrow> string \<Rightarrow> unit script" where
  "diag_panel E fqn =
     bnd (run_query E (diag_q fqn)) (\<lambda>diag_df.
     bnd (emit (Markdown ''#### Top Diagnoses by Cost'')) (\<lambda>_.
     if \<not> df_empty diag_df then emit (BarChartXY diag_df ''diagnosis_desc'' ''charges'')
     else emit (StInfo ''No diagnoses data.'')))"

definition prov_panel :: "env \<Rightarrow> string \<Rightarrow> unit script" where
  "prov_panel E fqn =
     bnd (run_query E (prov_q fqn)) (\<lambda>prov_df.
     bnd (emit (Markdown ''#### Top Providers by Total Charge'')) (\<lambda>_.
     if \<not> df_empty prov_df then emit (StDataframe prov_df)
     else emit (StInfo ''No provider data.'')))"

definition outlier_panel :: "env \<Rightarrow> string \<Rightarrow> unit script" where
  "outlier_panel E fqn =
     bnd (emit (Markdown ''#### Outlier High-Charge Claims'')) (\<lambda>_.
     bnd (run_query E (outlier_q fqn)) (\<lambda>outliers_df.
     if \<not> df_empty outliers_df then emit (StDataframe outliers_df)
     else emit (StInfo ''No outlier claims found.'')))"

text \<open>The panels below the KPI row, in the order of the script.\<close>

definition lower_panels :: "env \<Rightarrow> string \<Rightarrow> unit script" where
  "lower_panels E fqn =
     bnd (emit (StColumns 2)) (\<lambda>_.
     bnd (status_panel E fqn) (\<lambda>_.
     bnd (trend_panel E fqn) (\<lambda>_.
     bnd (emit (StColumns 2)) (\<lambda>_.
     bnd (denial_reason_panel E fqn) (\<lambda>_.
     bnd (denial_by_provider_panel E fqn) (\<lambda>_.
     bnd (emit (StColumns 2)) (\<lambda>_.
     bnd (diag_panel E fqn) (\<lambda>_.
     bnd (prov_panel E fqn) (\<lambda>_.
     outlier_panel E fqn)))))))))"

definition analytics ::
  "env \<Rightarrow> string option \<Rightarrow> string option \<Rightarrow> string option \<Rightarrow> unit script" where
  "analytics E selected_catalog selected_schema selected_table =
     (if truthy selected_catalog \<and> truthy selected_schema \<and> truthy selected_table then
        bnd (ret (table_fqn (the selected_catalog) (the selected_schema) (the selected_table)))
          (\<lambda>fqn.
        bnd (emit (Subheader (''Data from `'' @ fqn @ ''`''))) (\<lambda>_.
        bnd (preview_panel E fqn) (\<lambda>_.
        bnd (kpi_panel E fqn) (\<lambda>_.
        lower_panels E fqn))))
      else ret ())"

subsection \<open>The render pass\<close>

definition page_setup :: "unit script" where
  "page_setup =
     bnd (emit PageConfig) (\<lambda>_.
     bnd (emit (StTitle ''Claims Enriched Table Explorer (Horizontal Filters + Analytics)'')) (\<lambda>_.
     emit (StColumns 3)))"

definition page_setup_events :: "event list" where
  "page_setup_events =
     [PageConfig,
      StTitle ''Claims Enriched Table Explorer (Horizontal Filters + Analytics)'',
      StColumns 3]"

definition selectors ::
  "env \<Rightarrow> ui \<Rightarrow> (string option \<times> string option \<times> string option) script" where
  "selectors E U =
     bnd (catalog_stage E U) (\<lambda>selected_catalog.
     bnd (schema_stage E U selected_catalog) (\<lambda>selected_schema.
     bnd (table_stage E U selected_catalog selected_schema) (\<lambda>selected_table.
     ret (selected_catalog, selected_schema, selected_table))))"

definition render_pass :: "env \<Rightarrow> ui \<Rightarrow> unit script" where
  "render_pass E U =
     bnd page_setup (\<lambda>_.
     bnd (selectors E U) (\<lambda>(selected_catalog, selected_schema, selected_table).
     analytics E selected_catalog selected_schema selected_table))"

subsection \<open>A sample warehouse\<close>

text \<open>
  One catalog \<open>main\<close> with a schema \<open>payer\<close> holding three tables; the table
  \<open>claims_enriched\<close> has three claims, one of them denied, over two months.
\<close>

definition demo_catalogs :: dataframe where
  "demo_catalogs = [(''catalog'', [Str ''main'', Str ''samples''])]"

definition demo_schemas :: dataframe where
  "demo_schemas = [(''databaseName'', [Str ''default'', Str ''payer''])]"

definition demo_tables :: dataframe where
  "demo_tables =
     [(''database'', [Str ''payer'', Str ''payer'', Str ''payer'']),
      (''tableName'', [Str ''claims_raw'', Str ''claims_enriched'', Str ''members'']),
      (''isTemporary'', [Bool False, Bool False, Bool False])]"

definition demo_fqn :: string where
  "demo_fqn = ''main.payer.claims_enriched''"

definition demo_kpi :: dataframe where
  "demo_kpi =
     [(''total_claims'', [IntV 3]), (''total_charges'', [Num 150]),
      (''distinct_members'', [IntV 2]), (''distinct_providers'', [IntV 2]),
      (''denial_rate'', [Num (1 / 3)])]"

definition demo_trend :: dataframe where
  "demo_trend =
     [(''month'', [Str ''2023-01'', Str ''2023-02'']),
      (''charges'', [Num 100, Num 50]),
      (''denied_amt'', [Num 10, Num 0])]"

definition demo_execute :: "string \<Rightarrow> pyerr + dataframe option" where
  "demo_execute query =
     (if query = ''SHOW CATALOGS'' then Inr (Some demo_catalogs)
      else if query = ''SHOW SCHEMAS IN main'' then Inr (Some demo_schemas)
      else if query = ''SHOW TABLES IN main.payer'' then Inr (Some demo_tables)
      else if query = kpi_query demo_fqn then Inr (Some demo_kpi)
      else if query = monthly_trend_q demo_fqn then Inr (Some demo_trend)
      else Inr None)"

definition demo_int :: "cell \<Rightarrow> pyerr + int" where
  "demo_int x =
     (case x of IntV i \<Rightarrow> Inr i | Num r \<Rightarrow> Inr (if r < 0 then - \<lfloor>- r\<rfloor> else \<lfloor>r\<rfloor>)
      | Bool b \<Rightarrow> Inr (if b then 1 else 0)
      | Str _ \<Rightarrow> Inl ValueError | Null \<Rightarrow> Inl TypeError)"

definition demo_fmt :: "string \<Rightarrow> cell \<Rightarrow> pyerr + string" where
  "demo_fmt shown x = (case x of IntV i \<Rightarrow> Inr shown | Num r \<Rightarrow> Inr shown | Bool b \<Rightarrow> Inr shown
      | Str _ \<Rightarrow> Inl ValueError | Null \<Rightarrow> Inl TypeError)"

definition demo_env :: env where
  "demo_env =
     \<lparr>connect = None, execute = demo_execute, str_lower = ascii_lower, py_int = demo_int,
      fmt_money = demo_fmt ''150.00'', fmt_pct = demo_fmt ''33.3''\<rparr>"

text \<open>The sample warehouse with the answer to one query replaced.\<close>

definition answering :: "env \<Rightarrow> string \<Rightarrow> pyerr + dataframe option \<Rightarrow> env" where
  "answering E query answer = E\<lparr>execute := (execute E)(query := answer)\<rparr>"

definition demo_ui :: ui where
  "demo_ui =
     \<lparr>catalog_filter = ''MA'', catalog_select = None,
      schema_filter = ''pay'', schema_select = None,
      table_filter = ''Claims'', table_select = None\<rparr>"

section \<open>Properties\<close>

subsection \<open>Sequencing\<close>

lemma bnd_Inr:
  "m c = (Inr x, es, c') \<Longrightarrow>
   bnd m f c = (case f x c' of (r, es', c'') \<Rightarrow> (r, es @ es', c''))"
  by (simp add: bnd_def)

lemma bnd_Inl: "m c = (Inl h, es, c') \<Longrightarrow> bnd m f c = (Inl h, es, c')"
  by (simp add: bnd_def)

lemmas script_simps =
  bnd_def emit_def ret_def halt_with_def stop_def lift_def text_input_def selectbox_def

lemma run_query_available:
  "available E c \<Longrightarrow>
   run_query E q c = (map_sum Raised result_frame (execute E q), [RunQuery q], True)"
  by (cases "execute E q")
     (auto simp: run_query_def available_def get_connection_def script_simps)

lemma run_query_unavailable:
  "\<not> available E c \<Longrightarrow> run_query E q c = (Inl (Raised (the (connect E))), [], False)"
  by (auto simp: run_query_def available_def get_connection_def bnd_def)

lemma run_query_Inr_cached: "run_query E q c = (Inr x, es, c') \<Longrightarrow> c'"
  by (cases "available E c") (simp_all add: run_query_available run_query_unavailable)

subsection \<open>The connection cache\<close>

named_theorems ct_intros

lemma ct_ret [ct_intros]: "cache_transparent (ret x)"
  by (simp add: cache_transparent_def ret_def)

lemma ct_emit [ct_intros]: "cache_transparent (emit e)"
  by (simp add: cache_transparent_def emit_def)

lemma ct_halt_with [ct_intros]: "cache_transparent (halt_with h)"
  by (simp add: cache_transparent_def halt_with_def)

lemma ct_stop [ct_intros]: "cache_transparent stop"
  by (simp add: stop_def ct_halt_with)

lemma ct_lift [ct_intros]: "cache_transparent (lift r)"
  by (cases r) (simp_all add: lift_def ct_halt_with ct_ret)

lemma ct_get_connection [ct_intros]: "cache_transparent (get_connection E)"
  by (simp add: cache_transparent_def get_connection_def split: option.splits)

lemma ct_bnd [ct_intros]:
  assumes m: "cache_transparent m" and f: "\<And>x. cache_transparent (f x)"
  shows "cache_transparent (bnd m f)"
proof -
  obtain r1 e1 c1 where T: "m True = (r1, e1, c1)" by (metis prod_cases3)
  obtain r0 e0 c0 where F: "m False = (r0, e0, c0)" by (metis prod_cases3)
  from m T have c1: "c1" by (simp add: cache_transparent_def)
  from m T F have same: "c0 \<or> \<not> isl r0 \<Longrightarrow> r1 = r0 \<and> e1 = e0"
    by (simp add: cache_transparent_def)
  have keep: "snd (snd (bnd m f True))"
  proof (cases r1)
    case (Inl h)
    with T c1 show ?thesis by (simp add: bnd_def)
  next
    case (Inr x)
    obtain r e c where fx: "f x True = (r, e, c)" by (metis prod_cases3)
    with f[of x] have "c" by (simp add: cache_transparent_def)
    with Inr T c1 fx show ?thesis by (simp add: bnd_def)
  qed
  have again: "bnd m f True = (fst (bnd m f False), fst (snd (bnd m f False)), True)"
    if ok: "snd (snd (bnd m f False)) \<or> \<not> isl (fst (bnd m f False))"
  proof (cases r0)
    case (Inl h)
    with F ok have "c0" by (simp add: bnd_def)
    with same Inl have "r1 = Inl h" "e1 = e0" by simp_all
    with T F Inl c1 show ?thesis by (simp add: bnd_def)
  next
    case (Inr x)
    with same have r1: "r1 = Inr x" "e1 = e0" by simp_all
    obtain r e c where fx: "f x c0 = (r, e, c)" by (metis prod_cases3)
    from ok F Inr fx have ok': "c \<or> \<not> isl r" by (simp add: bnd_def)
    have "f x True = (r, e, True)"
    proof (cases c0)
      case True
      with fx f[of x] show ?thesis by (simp add: cache_transparent_def)
    next
      case False
      with fx ok' f[of x] show ?thesis by (simp add: cache_transparent_def)
    qed
    with T F Inr r1 c1 fx show ?thesis by (simp add: bnd_def)
  qed
  from keep again show ?thesis by (simp add: cache_transparent_def)
qed

lemma ct_if [ct_intros]:
  "cache_transparent m \<Longrightarrow> cache_transparent n \<Longrightarrow> cache_transparent (if b then m else n)"
  by simp

lemma ct_case_prod [ct_intros]:
  "(\<And>a b. cache_transparent (f a b)) \<Longrightarrow> cache_transparent (case p of (a, b) \<Rightarrow> f a b)"
  by (cases p) simp

lemma ct_run_query [ct_intros]: "cache_transparent (run_query E q)"
  unfolding run_query_def by (intro ct_intros)

lemma ct_text_input [ct_intros]: "cache_transparent (text_input l v)"
  unfolding text_input_def by (intro ct_intros)

lemma ct_selectbox [ct_intros]: "cache_transparent (selectbox l opts i p)"
  unfolding selectbox_def by (intro ct_intros)

lemma ct_catalog_stage [ct_intros]: "cache_transparent (catalog_stage E U)"
  unfolding catalog_stage_def by (intro ct_intros)

lemma ct_schema_stage [ct_intros]: "cache_transparent (schema_stage E U sc)"
  unfolding schema_stage_def by (intro ct_intros)

lemma ct_table_stage [ct_intros]: "cache_transparent (table_stage E U sc ss)"
  unfolding table_stage_def by (intro ct_intros)

lemma ct_selectors [ct_intros]: "cache_transparent (selectors E U)"
  unfolding selectors_def by (intro ct_intros)

lemma ct_preview_panel [ct_intros]: "cache_transparent (preview_panel E fqn)"
  unfolding preview_panel_def by (intro ct_intros)

lemma ct_kpi_panel [ct_intros]: "cache_transparent (kpi_panel E fqn)"
  unfolding kpi_panel_def by (intro ct_intros)

lemma ct_status_panel [ct_intros]: "cache_transparent (status_panel E fqn)"
  unfolding status_panel_def by (intro ct_intros)

lemma ct_trend_panel [ct_intros]: "cache_transparent (trend_panel E fqn)"
  unfolding trend_panel_def by (intro ct_intros)

lemma ct_denial_reason_panel [ct_intros]: "cache_transparent (denial_reason_panel E fqn)"
  unfolding denial_reason_panel_def by (intro ct_intros)

lemma ct_denial_by_provider_panel [ct_intros]: "cache_transparent (denial_by_provider_panel E fqn)"
  unfolding denial_by_provider_panel_def by (intro ct_intros)

lemma ct_diag_panel [ct_intros]: "cache_transparent (diag_panel E fqn)"
  unfolding diag_panel_def by (intro ct_intros)

lemma ct_prov_panel [ct_intros]: "cache_transparent (prov_panel E fqn)"
  unfolding prov_panel_def by (intro ct_intros)

lemma ct_outlier_panel [ct_intros]: "cache_transparent (outlier_panel E fqn)"
  unfolding outlier_panel_def by (intro ct_intros)

lemma ct_lower_panels [ct_intros]: "cache_transparent (lower_panels E fqn)"
  unfolding lower_panels_def by (intro ct_intros)

lemma ct_analytics [ct_intros]: "cache_transparent (analytics E sc ss st)"
  unfolding analytics_def by (intro ct_intros)

lemma ct_page_setup [ct_intros]: "cache_transparent page_setup"
  unfolding page_setup_def by (intro ct_intros)

lemma ct_render_pass: "cache_transparent (render_pass E U)"
  unfolding render_pass_def by (intro ct_intros)

lemma ct_keeps: "cache_transparent m \<Longrightarrow> m True = (r, es, c') \<Longrightarrow> c'"
  by (simp add: cache_transparent_def)

lemma ct_again:
  assumes "cache_transparent m" and "m c = (r, es, c')"
  shows "m c' = (r, es, c')"
proof (cases c)
  case True
  with assms show ?thesis by (auto simp: cache_transparent_def)
next
  case False
  with assms show ?thesis by (cases c') (auto simp: cache_transparent_def)
qed

lemma py_index_mem:
  "x \<in> set xs \<Longrightarrow> \<exists>i. py_index xs x = Inr i \<and> i < length xs \<and> xs ! i = x"
  by (induction xs) auto

subsection \<open>The three selector stages\<close>

lemma catalog_stage_empty:
  "available E c \<Longrightarrow> execute E ''SHOW CATALOGS'' = Inr res \<Longrightarrow> df_empty (result_frame res) \<Longrightarrow>
   catalog_stage E U c =
     (Inl Stopped,
      [RunQuery ''SHOW CATALOGS'', StError ''No catalogs available; check permissions.''], True)"
  by (simp add: catalog_stage_def run_query_available script_simps)

lemma catalog_stage_nomatch:
  "available E c \<Longrightarrow> execute E ''SHOW CATALOGS'' = Inr res \<Longrightarrow>
   \<not> df_empty (result_frame res) \<Longrightarrow> catalog_list (result_frame res) = Inr cl \<Longrightarrow>
   filtered_catalogs (str_lower E) (catalog_filter U) cl = Inr [] \<Longrightarrow>
   catalog_stage E U c =
     (Inl Stopped,
      [RunQuery ''SHOW CATALOGS'', TextInput ''Catalog filter'', StWarning ''No catalogs match.''],
      True)"
  by (simp add: catalog_stage_def run_query_available script_simps)


lemma schema_stage_empty:
  "available E c \<Longrightarrow> truthy sc \<Longrightarrow> execute E (show_schemas (the sc)) = Inr res \<Longrightarrow>
   df_empty (result_frame res) \<Longrightarrow>
   schema_stage E U sc c =
     (Inl Stopped, [RunQuery (show_schemas (the sc)), StError ''No schemas found.''], True)"
  by (simp add: schema_stage_def run_query_available script_simps)

lemma schema_stage_nomatch:
  "available E c \<Longrightarrow> truthy sc \<Longrightarrow> execute E (show_schemas (the sc)) = Inr res \<Longrightarrow>
   \<not> df_empty (result_frame res) \<Longrightarrow> schema_list (result_frame res) = Inr sl \<Longrightarrow>
   filtered_schemas (str_lower E) (schema_filter U) sl = Inr [] \<Longrightarrow>
   schema_stage E U sc c =
     (Inl Stopped,
      [RunQuery (show_schemas (the sc)), TextInput ''Schema filter'', StWarning ''No schemas match.''],
      True)"
  by (simp add: schema_stage_def run_query_available script_simps)


lemma table_stage_empty:
  "available E c \<Longrightarrow> truthy sc \<Longrightarrow> truthy ss \<Longrightarrow>
   execute E (show_tables (the sc) (the ss)) = Inr res \<Longrightarrow> df_empty (result_frame res) \<Longrightarrow>
   table_stage E U sc ss c =
     (Inl Stopped,
      [RunQuery (show_tables (the sc) (the ss)), StWarning ''No tables in this schema.''], True)"
  by (simp add: table_stage_def run_query_available script_simps)

lemma table_stage_raise:
  "available E c \<Longrightarrow> truthy sc \<Longrightarrow> truthy ss \<Longrightarrow>
   execute E (show_tables (the sc) (the ss)) = Inr res \<Longrightarrow> \<not> df_empty (result_frame res) \<Longrightarrow>
   table_list (result_frame res) = Inl e \<Longrightarrow>
   table_stage E U sc ss c =
     (Inl (Raised e), [RunQuery (show_tables (the sc) (the ss))], True)"
  by (simp add: table_stage_def run_query_available script_simps)

lemma table_stage_nomatch:
  "available E c \<Longrightarrow> truthy sc \<Longrightarrow> truthy ss \<Longrightarrow>
   execute E (show_tables (the sc) (the ss)) = Inr res \<Longrightarrow> \<not> df_empty (result_frame res) \<Longrightarrow>
   table_list (result_frame res) = Inr tbl \<Longrightarrow> filtered_tables (str_lower E) (table_filter U) tbl = Inr [] \<Longrightarrow>
   table_stage E U sc ss c =
     (Inl Stopped,
      [RunQuery (show_tables (the sc) (the ss)), TextInput ''Table filter'',
       StWarning ''No tables match.''], True)"
  by (simp add: table_stage_def run_query_available script_simps)



subsection \<open>What a stage leaves behind\<close>

lemma bnd_Inr_cached:
  assumes m: "\<And>c x es c'. m c = (Inr x, es, c') \<Longrightarrow> c'"
    and f: "\<And>x. cache_transparent (f x)"
    and r: "bnd m f c = (Inr y, es, c')"
  shows "c'"
proof -
  obtain r1 e1 c1 where mc: "m c = (r1, e1, c1)" by (metis prod_cases3)
  show ?thesis
  proof (cases r1)
    case (Inl h)
    with mc r show ?thesis by (simp add: bnd_def)
  next
    case (Inr x)
    with mc m have c1 by blast
    obtain r2 e2 c2 where fx: "f x True = (r2, e2, c2)" by (metis prod_cases3)
    with f[of x] have c2 by (simp add: cache_transparent_def)
    with mc Inr \<open>c1\<close> fx r show ?thesis by (simp add: bnd_def)
  qed
qed

lemma catalog_stage_Inr_cached: "catalog_stage E U c = (Inr x, es, c') \<Longrightarrow> c'"
  unfolding catalog_stage_def
  by (erule bnd_Inr_cached [rotated 2]) (erule run_query_Inr_cached, intro ct_intros)

subsection \<open>The pass in terms of its parts\<close>

lemma page_setup_run: "page_setup c = (Inr (), page_setup_events, c)"
  by (simp add: page_setup_def page_setup_events_def script_simps)

lemma render_pass_selectors_halt:
  "selectors E U c = (Inl h, es, c') \<Longrightarrow>
   render_pass E U c = (Inl h, page_setup_events @ es, c')"
  by (simp add: render_pass_def bnd_Inr [OF page_setup_run] bnd_Inl)

lemma render_pass_analytics:
  "selectors E U c = (Inr (sc, ss, st), es, c') \<Longrightarrow> analytics E sc ss st c' = (r, es', c'') \<Longrightarrow>
   render_pass E U c = (r, page_setup_events @ es @ es', c'')"
  by (simp add: render_pass_def bnd_Inr [OF page_setup_run] bnd_Inr)

lemma selectors_catalog_halt:
  "catalog_stage E U c = (Inl h, es, c') \<Longrightarrow> selectors E U c = (Inl h, es, c')"
  by (simp add: selectors_def bnd_Inl)

lemma selectors_schema_halt:
  "catalog_stage E U c = (Inr sc, es1, c1) \<Longrightarrow> schema_stage E U sc c1 = (Inl h, es2, c2) \<Longrightarrow>
   selectors E U c = (Inl h, es1 @ es2, c2)"
  by (simp add: selectors_def bnd_Inr bnd_Inl)

lemma selectors_table_halt:
  "catalog_stage E U c = (Inr sc, es1, c1) \<Longrightarrow> schema_stage E U sc c1 = (Inr ss, es2, c2) \<Longrightarrow>
   table_stage E U sc ss c2 = (Inl h, es3, c3) \<Longrightarrow>
   selectors E U c = (Inl h, es1 @ es2 @ es3, c3)"
  by (simp add: selectors_def bnd_Inr bnd_Inl)

lemma selectors_Inr_cached: "selectors E U c = (Inr x, es, c') \<Longrightarrow> c'"
  unfolding selectors_def
  by (erule bnd_Inr_cached [rotated 2]) (erule catalog_stage_Inr_cached, intro ct_intros)

subsection \<open>Empty results in the panels\<close>

lemma run_query_empty:
  "available E c \<Longrightarrow> empty_result E q \<Longrightarrow>
   \<exists>df. run_query E q c = (Inr df, [RunQuery q], True) \<and> df_empty df"
  by (cases "execute E q") (simp_all add: empty_result_def run_query_available)

lemma preview_panel_empty:
  "available E c \<Longrightarrow> empty_result E (preview_q fqn) \<Longrightarrow>
   preview_panel E fqn c = (Inr (), [RunQuery (preview_q fqn), StInfo ''No data found.''], True)"
  using run_query_empty [of E c "preview_q fqn"]
  by (auto simp: preview_panel_def script_simps)

lemma status_panel_empty:
  "available E c \<Longrightarrow> empty_result E (status_q fqn) \<Longrightarrow>
   status_panel E fqn c =
     (Inr (), [RunQuery (status_q fqn), Markdown ''#### Claims by Status'',
               StInfo ''No claims status data.''], True)"
  using run_query_empty [of E c "status_q fqn"]
  by (auto simp: status_panel_def script_simps)

lemma trend_panel_empty:
  "available E c \<Longrightarrow> empty_result E (monthly_trend_q fqn) \<Longrightarrow>
   trend_panel E fqn c =
     (Inr (), [RunQuery (monthly_trend_q fqn), Markdown ''#### Monthly Charges & Denials'',
               StInfo ''No trend data.''], True)"
  using run_query_empty [of E c "monthly_trend_q fqn"]
  by (auto simp: trend_panel_def script_simps)

lemma denial_reason_panel_empty:
  "available E c \<Longrightarrow> empty_result E (denial_reason_q fqn) \<Longrightarrow>
   denial_reason_panel E fqn c =
     (Inr (), [RunQuery (denial_reason_q fqn), Markdown ''#### Top Denial Reasons (Diagnosis)'',
               StInfo ''No denials by reason.''], True)"
  using run_query_empty [of E c "denial_reason_q fqn"]
  by (auto simp: denial_reason_panel_def script_simps)

lemma denial_by_provider_panel_empty:
  "available E c \<Longrightarrow> empty_result E (denial_by_provider_q fqn) \<Longrightarrow>
   denial_by_provider_panel E fqn c =
     (Inr (), [RunQuery (denial_by_provider_q fqn),
               Markdown ''#### Providers with Highest Denial Rate'',
               StInfo ''No denial/provider data.''], True)"
  using run_query_empty [of E c "denial_by_provider_q fqn"]
  by (auto simp: denial_by_provider_panel_def script_simps)

lemma diag_panel_empty:
  "available E c \<Longrightarrow> empty_result E (diag_q fqn) \<Longrightarrow>
   diag_panel E fqn c =
     (Inr (), [RunQuery (diag_q fqn), Markdown ''#### Top Diagnoses by Cost'',
               StInfo ''No diagnoses data.''], True)"
  using run_query_empty [of E c "diag_q fqn"]
  by (auto simp: diag_panel_def script_simps)

lemma prov_panel_empty:
  "available E c \<Longrightarrow> empty_result E (prov_q fqn) \<Longrightarrow>
   prov_panel E fqn c =
     (Inr (), [RunQuery (prov_q fqn), Markdown ''#### Top Providers by Total Charge'',
               StInfo ''No provider data.''], True)"
  using run_query_empty [of E c "prov_q fqn"]
  by (auto simp: prov_panel_def script_simps)

lemma outlier_panel_empty:
  "available E c \<Longrightarrow> empty_result E (outlier_q fqn) \<Longrightarrow>
   outlier_panel E fqn c =
     (Inr (), [Markdown ''#### Outlier High-Charge Claims'', RunQuery (outlier_q fqn),
               StInfo ''No outlier claims found.''], True)"
  using run_query_empty [of E c "outlier_q fqn"]
  by (auto simp: outlier_panel_def script_simps)

lemma available_True: "available E True"
  by (simp add: available_def)

lemma lower_panels_empty:
  assumes "available E c"
    and "empty_result E (status_q fqn)" "empty_result E (monthly_trend_q fqn)"
    and "empty_result E (denial_reason_q fqn)" "empty_result E (denial_by_provider_q fqn)"
    and "empty_result E (diag_q fqn)" "empty_result E (prov_q fqn)"
    and "empty_result E (outlier_q fqn)"
  shows "lower_panels E fqn c =
     (Inr (),
      [StColumns 2,
       RunQuery (status_q fqn), Markdown ''#### Claims by Status'',
       StInfo ''No claims status data.'',
       RunQuery (monthly_trend_q fqn), Markdown ''#### Monthly Charges & Denials'',
       StInfo ''No trend data.'',
       StColumns 2,
       RunQuery (denial_reason_q fqn), Markdown ''#### Top Denial Reasons (Diagnosis)'',
       StInfo ''No denials by reason.'',
       RunQuery (denial_by_provider_q fqn), Markdown ''#### Providers with Highest Denial Rate'',
       StInfo ''No denial/provider data.'',
       StColumns 2,
       RunQuery (diag_q fqn), Markdown ''#### Top Diagnoses by Cost'',
       StInfo ''No diagnoses data.'',
       RunQuery (prov_q fqn), Markdown ''#### Top Providers by Total Charge'',
       StInfo ''No provider data.'',
       Markdown ''#### Outlier High-Charge Claims'', RunQuery (outlier_q fqn),
       StInfo ''No outlier claims found.''],
      True)"
proof -
  have e: "\<And>e f c. bnd (emit e) f c = (case f () c of (r, es, c') \<Rightarrow> (r, e # es, c'))"
    by (simp add: bnd_def emit_def)
  show ?thesis
    unfolding lower_panels_def e
    by (simp add: bnd_Inr [OF status_panel_empty] bnd_Inr [OF trend_panel_empty]
        bnd_Inr [OF denial_reason_panel_empty] bnd_Inr [OF denial_by_provider_panel_empty]
        bnd_Inr [OF diag_panel_empty] bnd_Inr [OF prov_panel_empty]
        outlier_panel_empty assms available_True)
qed

subsection \<open>Filtering and the default selection\<close>







text \<open>
  Claim C2.  For a filtered table list that reaches the select box (it is not empty), the
  default index is a position of the list, and the option selected by default is
  \<open>claims_enriched\<close> when the list has it, wherever it stands, and the first element of
  the list otherwise.
\<close>

theorem default_table_selection:
  assumes "filtered \<noteq> []"
  shows "\<exists>i. default_idx filtered = Inr i \<and> i < length filtered
     \<and> selectbox_value filtered i None =
        Some (if ''claims_enriched'' \<in> set filtered then ''claims_enriched'' else hd filtered)"
proof (cases "''claims_enriched'' \<in> set filtered")
  case True
  then obtain i where "py_index filtered ''claims_enriched'' = Inr i" "i < length filtered"
    "filtered ! i = ''claims_enriched''"
    using py_index_mem by blast
  with True assms show ?thesis
    by (simp add: default_idx_def selectbox_value_def)
next
  case False
  with assms show ?thesis
    by (simp add: default_idx_def selectbox_value_def hd_conv_nth)
qed

theorem default_table_selection_witness:
  "[''claims_raw'', ''claims_enriched'', ''claims_staging''] \<noteq> []
   \<and> (\<exists>i. default_idx [''claims_raw'', ''claims_enriched'', ''claims_staging''] = Inr i
        \<and> selectbox_value [''claims_raw'', ''claims_enriched'', ''claims_staging''] i None
            = Some ''claims_enriched'')"
  using default_table_selection [of "[''claims_raw'', ''claims_enriched'', ''claims_staging'']"]
  by auto

subsection \<open>Running the pass again\<close>

text \<open>
  Claim C9.  A second render pass with the same widget state and the same warehouse,
  started with the connection cache as the first pass left it, ends the same way and
  makes the same calls in the same order (so the same query strings and the same
  rendered tables), and leaves the cache as it found it.
\<close>

theorem render_pass_again:
  "render_pass E U c = (r, es, c') \<Longrightarrow> render_pass E U c' = (r, es, c')"
  by (rule ct_again [OF ct_render_pass])

theorem render_pass_again_witness:
  "snd (snd (render_pass demo_env demo_ui False))
   \<and> render_pass demo_env demo_ui True = render_pass demo_env demo_ui False"
proof -
  have c: "snd (snd (render_pass demo_env demo_ui False)) = True"
    by code_simp
  have "render_pass demo_env demo_ui False =
      (fst (render_pass demo_env demo_ui False), fst (snd (render_pass demo_env demo_ui False)),
       snd (snd (render_pass demo_env demo_ui False)))"
    by simp
  from render_pass_again [OF this] c show ?thesis
    by (simp add: prod_eq_iff)
qed

subsection \<open>Halting in the selectors row\<close>

text \<open>
  Claim C5, as the script has it.  At each selector stage an empty result of the metadata
  query, and an empty filtered list, end the whole pass with \<open>st.stop()\<close> right after
  one notice, and nothing of a later stage is queried or drawn: the calls of the pass are
  the page set-up, the calls of the stages before, the query of the stage (and its filter
  input), and the notice.  The notice for an empty result is \<open>st.error\<close> at the catalog
  and schema stages and \<open>st.warning\<close> at the table stage; the notice for an empty
  filtered list is \<open>st.warning\<close> at every stage.
\<close>

theorem selector_halts_end_the_pass:
  "(available E c \<and> execute E ''SHOW CATALOGS'' = Inr res \<and> df_empty (result_frame res) \<longrightarrow>
      render_pass E U c =
        (Inl Stopped,
         page_setup_events @
         [RunQuery ''SHOW CATALOGS'', StError ''No catalogs available; check permissions.''],
         True))
   \<and> (available E c \<and> execute E ''SHOW CATALOGS'' = Inr res \<and> \<not> df_empty (result_frame res)
       \<and> catalog_list (result_frame res) = Inr cands
       \<and> filtered_catalogs (str_lower E) (catalog_filter U) cands = Inr [] \<longrightarrow>
      render_pass E U c =
        (Inl Stopped,
         page_setup_events @
         [RunQuery ''SHOW CATALOGS'', TextInput ''Catalog filter'',
          StWarning ''No catalogs match.''],
         True))
   \<and> (catalog_stage E U c = (Inr sc, es1, c1) \<and> truthy sc
       \<and> execute E (show_schemas (the sc)) = Inr res \<and> df_empty (result_frame res) \<longrightarrow>
      render_pass E U c =
        (Inl Stopped,
         page_setup_events @ es1 @
         [RunQuery (show_schemas (the sc)), StError ''No schemas found.''],
         True))
   \<and> (catalog_stage E U c = (Inr sc, es1, c1) \<and> truthy sc
       \<and> execute E (show_schemas (the sc)) = Inr res \<and> \<not> df_empty (result_frame res)
       \<and> schema_list (result_frame res) = Inr cands
       \<and> filtered_schemas (str_lower E) (schema_filter U) cands = Inr [] \<longrightarrow>
      render_pass E U c =
        (Inl Stopped,
         page_setup_events @ es1 @
         [RunQuery (show_schemas (the sc)), TextInput ''Schema filter'',
          StWarning ''No schemas match.''],
         True))
   \<and> (catalog_stage E U c = (Inr sc, es1, c1) \<and> schema_stage E U sc c1 = (Inr ss, es2, c2)
       \<and> truthy sc \<and> truthy ss
       \<and> execute E (show_tables (the sc) (the ss)) = Inr res \<and> df_empty (result_frame res) \<longrightarrow>
      render_pass E U c =
        (Inl Stopped,
         page_setup_events @ es1 @ es2 @
         [RunQuery (show_tables (the sc) (the ss)), StWarning ''No tables in this schema.''],
         True))
   \<and> (catalog_stage E U c = (Inr sc, es1, c1) \<and> schema_stage E U sc c1 = (Inr ss, es2, c2)
       \<and> truthy sc \<and> truthy ss
       \<and> execute E (show_tables (the sc) (the ss)) = Inr res \<and> \<not> df_empty (result_frame res)
       \<and> table_list (result_frame res) = Inr cands
       \<and> filtered_tables (str_lower E) (table_filter U) cands = Inr [] \<longrightarrow>
      render_pass E U c =
        (Inl Stopped,
         page_setup_events @ es1 @ es2 @
         [RunQuery (show_tables (the sc) (the ss)), TextInput ''Table filter'',
          StWarning ''No tables match.''],
         True))"
proof -
  have c1: "available E c1" if "catalog_stage E U c = (Inr sc, es1, c1)"
    using catalog_stage_Inr_cached [OF that] by (simp add: available_def)
  have c2: "available E c2"
    if "catalog_stage E U c = (Inr sc, es1, c1)" "schema_stage E U sc c1 = (Inr ss, es2, c2)"
    using catalog_stage_Inr_cached [OF that(1)] that(2) ct_keeps [OF ct_schema_stage]
    by (auto simp: available_def)
  show ?thesis
  proof (intro conjI impI; elim conjE)
    assume "available E c" "execute E ''SHOW CATALOGS'' = Inr res" "df_empty (result_frame res)"
    from catalog_stage_empty [OF this]
    show "render_pass E U c =
        (Inl Stopped,
         page_setup_events @
         [RunQuery ''SHOW CATALOGS'', StError ''No catalogs available; check permissions.''],
         True)"
      by (rule render_pass_selectors_halt [OF selectors_catalog_halt])
  next
    assume "available E c" "execute E ''SHOW CATALOGS'' = Inr res" "\<not> df_empty (result_frame res)"
      "catalog_list (result_frame res) = Inr cands"
      "filtered_catalogs (str_lower E) (catalog_filter U) cands = Inr []"
    from catalog_stage_nomatch [OF this]
    show "render_pass E U c =
        (Inl Stopped,
         page_setup_events @
         [RunQuery ''SHOW CATALOGS'', TextInput ''Catalog filter'',
          StWarning ''No catalogs match.''],
         True)"
      by (rule render_pass_selectors_halt [OF selectors_catalog_halt])
  next
    assume cat: "catalog_stage E U c = (Inr sc, es1, c1)"
      and rest: "truthy sc" "execute E (show_schemas (the sc)) = Inr res" "df_empty (result_frame res)"
    from schema_stage_empty [OF c1 [OF cat] rest]
    show "render_pass E U c =
        (Inl Stopped,
         page_setup_events @ es1 @
         [RunQuery (show_schemas (the sc)), StError ''No schemas found.''],
         True)"
      by (rule render_pass_selectors_halt [OF selectors_schema_halt [OF cat]])
  next
    assume cat: "catalog_stage E U c = (Inr sc, es1, c1)"
      and rest: "truthy sc" "execute E (show_schemas (the sc)) = Inr res"
        "\<not> df_empty (result_frame res)" "schema_list (result_frame res) = Inr cands"
        "filtered_schemas (str_lower E) (schema_filter U) cands = Inr []"
    from schema_stage_nomatch [OF c1 [OF cat] rest]
    show "render_pass E U c =
        (Inl Stopped,
         page_setup_events @ es1 @
         [RunQuery (show_schemas (the sc)), TextInput ''Schema filter'',
          StWarning ''No schemas match.''],
         True)"
      by (rule render_pass_selectors_halt [OF selectors_schema_halt [OF cat]])
  next
    assume cat: "catalog_stage E U c = (Inr sc, es1, c1)"
      and sch: "schema_stage E U sc c1 = (Inr ss, es2, c2)"
      and rest: "truthy sc" "truthy ss" "execute E (show_tables (the sc) (the ss)) = Inr res"
        "df_empty (result_frame res)"
    from table_stage_empty [OF c2 [OF cat sch] rest]
    show "render_pass E U c =
        (Inl Stopped,
         page_setup_events @ es1 @ es2 @
         [RunQuery (show_tables (the sc) (the ss)), StWarning ''No tables in this schema.''],
         True)"
      by (rule render_pass_selectors_halt [OF selectors_table_halt [OF cat sch]])
  next
    assume cat: "catalog_stage E U c = (Inr sc, es1, c1)"
      and sch: "schema_stage E U sc c1 = (Inr ss, es2, c2)"
      and rest: "truthy sc" "truthy ss" "execute E (show_tables (the sc) (the ss)) = Inr res"
        "\<not> df_empty (result_frame res)" "table_list (result_frame res) = Inr cands"
        "filtered_tables (str_lower E) (table_filter U) cands = Inr []"
    from table_stage_nomatch [OF c2 [OF cat sch] rest]
    show "render_pass E U c =
        (Inl Stopped,
         page_setup_events @ es1 @ es2 @
         [RunQuery (show_tables (the sc) (the ss)), TextInput ''Table filter'',
          StWarning ''No tables match.''],
         True)"
      by (rule render_pass_selectors_halt [OF selectors_table_halt [OF cat sch]])
  qed
qed


theorem selector_halts_end_the_pass_witness:
  "render_pass (answering demo_env ''SHOW CATALOGS'' (Inr None)) demo_ui False =
     (Inl Stopped,
      page_setup_events @
      [RunQuery ''SHOW CATALOGS'', StError ''No catalogs available; check permissions.''],
      True)
   \<and> render_pass demo_env (demo_ui\<lparr>catalog_filter := ''zzz''\<rparr>) False =
     (Inl Stopped,
      page_setup_events @
      [RunQuery ''SHOW CATALOGS'', TextInput ''Catalog filter'', StWarning ''No catalogs match.''],
      True)
   \<and> render_pass
       (answering demo_env ''SHOW SCHEMAS IN main'' (Inr (Some [(''databaseName'', [])])))
       demo_ui False =
     (Inl Stopped,
      page_setup_events @
      [RunQuery ''SHOW CATALOGS'', TextInput ''Catalog filter'', Selectbox ''Catalog'' [''main''] 0] @
      [RunQuery (show_schemas (the (Some ''main''))), StError ''No schemas found.''],
      True)
   \<and> render_pass demo_env (demo_ui\<lparr>schema_filter := ''zzz''\<rparr>) False =
     (Inl Stopped,
      page_setup_events @
      [RunQuery ''SHOW CATALOGS'', TextInput ''Catalog filter'', Selectbox ''Catalog'' [''main''] 0] @
      [RunQuery (show_schemas (the (Some ''main''))), TextInput ''Schema filter'',
       StWarning ''No schemas match.''],
      True)
   \<and> render_pass (answering demo_env ''SHOW TABLES IN main.payer'' (Inr None)) demo_ui False =
     (Inl Stopped,
      page_setup_events @
      [RunQuery ''SHOW CATALOGS'', TextInput ''Catalog filter'', Selectbox ''Catalog'' [''main''] 0] @
      [RunQuery ''SHOW SCHEMAS IN main'', TextInput ''Schema filter'',
       Selectbox ''Schema'' [''payer''] 0] @
      [RunQuery (show_tables (the (Some ''main'')) (the (Some ''payer''))),
       StWarning ''No tables in this schema.''],
      True)
   \<and> render_pass demo_env (demo_ui\<lparr>table_filter := ''zzz''\<rparr>) False =
     (Inl Stopped,
      page_setup_events @
      [RunQuery ''SHOW CATALOGS'', TextInput ''Catalog filter'', Selectbox ''Catalog'' [''main''] 0] @
      [RunQuery ''SHOW SCHEMAS IN main'', TextInput ''Schema filter'',
       Selectbox ''Schema'' [''payer''] 0] @
      [RunQuery (show_tables (the (Some ''main'')) (the (Some ''payer''))),
       TextInput ''Table filter'', StWarning ''No tables match.''],
      True)"
proof -
  let ?cat = "[RunQuery ''SHOW CATALOGS'', TextInput ''Catalog filter'',
    Selectbox ''Catalog'' [''main''] 0]"
  let ?sch = "[RunQuery ''SHOW SCHEMAS IN main'', TextInput ''Schema filter'',
    Selectbox ''Schema'' [''payer''] 0]"
  let ?E1 = "answering demo_env ''SHOW CATALOGS'' (Inr None)"
  let ?U2 = "demo_ui\<lparr>catalog_filter := ''zzz''\<rparr>"
  let ?E3 = "answering demo_env ''SHOW SCHEMAS IN main'' (Inr (Some [(''databaseName'', [])]))"
  let ?U4 = "demo_ui\<lparr>schema_filter := ''zzz''\<rparr>"
  let ?E5 = "answering demo_env ''SHOW TABLES IN main.payer'' (Inr None)"
  let ?U6 = "demo_ui\<lparr>table_filter := ''zzz''\<rparr>"
  have a1: "available ?E1 False" "execute ?E1 ''SHOW CATALOGS'' = Inr None"
    "df_empty (result_frame None)"
    by code_simp+
  have a2: "available demo_env False" "execute demo_env ''SHOW CATALOGS'' = Inr (Some demo_catalogs)"
    "\<not> df_empty (result_frame (Some demo_catalogs))"
    "catalog_list (result_frame (Some demo_catalogs)) = Inr [Str ''main'', Str ''samples'']"
    "filtered_catalogs (str_lower demo_env) (catalog_filter ?U2) [Str ''main'', Str ''samples''] = Inr []"
    by code_simp+
  have a3: "catalog_stage ?E3 demo_ui False = (Inr (Some ''main''), ?cat, True)"
    "truthy (Some ''main'')"
    "execute ?E3 (show_schemas (the (Some ''main''))) = Inr (Some [(''databaseName'', [])])"
    "df_empty (result_frame (Some [(''databaseName'', [])]))"
    by code_simp+
  have a4: "catalog_stage demo_env ?U4 False = (Inr (Some ''main''), ?cat, True)"
    "truthy (Some ''main'')"
    "execute demo_env (show_schemas (the (Some ''main''))) = Inr (Some demo_schemas)"
    "\<not> df_empty (result_frame (Some demo_schemas))"
    "schema_list (result_frame (Some demo_schemas)) = Inr [Str ''default'', Str ''payer'']"
    "filtered_schemas (str_lower demo_env) (schema_filter ?U4) [Str ''default'', Str ''payer''] = Inr []"
    by code_simp+
  have a5: "catalog_stage ?E5 demo_ui False = (Inr (Some ''main''), ?cat, True)"
    "schema_stage ?E5 demo_ui (Some ''main'') True = (Inr (Some ''payer''), ?sch, True)"
    "truthy (Some ''main'')" "truthy (Some ''payer'')"
    "execute ?E5 (show_tables (the (Some ''main'')) (the (Some ''payer''))) = Inr None"
    "df_empty (result_frame None)"
    by code_simp+
  have a6: "catalog_stage demo_env ?U6 False = (Inr (Some ''main''), ?cat, True)"
    "schema_stage demo_env ?U6 (Some ''main'') True = (Inr (Some ''payer''), ?sch, True)"
    "truthy (Some ''main'')" "truthy (Some ''payer'')"
    "execute demo_env (show_tables (the (Some ''main'')) (the (Some ''payer'')))
       = Inr (Some demo_tables)"
    "\<not> df_empty (result_frame (Some demo_tables))"
    "table_list (result_frame (Some demo_tables))
       = Inr [Str ''claims_raw'', Str ''claims_enriched'', Str ''members'']"
    "filtered_tables (str_lower demo_env) (table_filter ?U6) [Str ''claims_raw'', Str ''claims_enriched'', Str ''members'']
       = Inr []"
    by code_simp+
  note t1 = selector_halts_end_the_pass [where E = ?E1 and U = demo_ui and c = False and res = None, THEN conjunct1]
  note t2 = selector_halts_end_the_pass [where E = demo_env and U = ?U2 and c = False and res = "Some demo_catalogs"
      and cands = "[Str ''main'', Str ''samples'']", THEN conjunct2, THEN conjunct1]
  note t3 = selector_halts_end_the_pass [where E = ?E3 and U = demo_ui and c = False
      and res = "Some [(''databaseName'', [])]" and sc = "Some ''main''" and ?es1.0 = ?cat
      and ?c1.0 = True,
      THEN conjunct2, THEN conjunct2, THEN conjunct1]
  note t4 = selector_halts_end_the_pass [where E = demo_env and U = ?U4 and c = False
      and res = "Some demo_schemas" and sc = "Some ''main''" and ?es1.0 = ?cat and ?c1.0 = True
      and cands = "[Str ''default'', Str ''payer'']",
      THEN conjunct2, THEN conjunct2, THEN conjunct2, THEN conjunct1]
  note t5 = selector_halts_end_the_pass [where E = ?E5 and U = demo_ui and c = False
      and res = None and sc = "Some ''main''" and ?es1.0 = ?cat and ?c1.0 = True
      and ss = "Some ''payer''" and ?es2.0 = ?sch and ?c2.0 = True,
      THEN conjunct2, THEN conjunct2, THEN conjunct2, THEN conjunct2, THEN conjunct1]
  note t6 = selector_halts_end_the_pass [where E = demo_env and U = ?U6 and c = False
      and res = "Some demo_tables" and sc = "Some ''main''" and ?es1.0 = ?cat and ?c1.0 = True
      and ss = "Some ''payer''" and ?es2.0 = ?sch and ?c2.0 = True
      and cands = "[Str ''claims_raw'', Str ''claims_enriched'', Str ''members'']",
      THEN conjunct2, THEN conjunct2, THEN conjunct2, THEN conjunct2, THEN conjunct2]
  from t1 a1 t2 a2 t3 a3 t4 a4 t5 a5 t6 a6 show ?thesis
    by blast
qed

text \<open>
  Claim C5 has the notice for an empty schema list as a warning.  With a catalog \<open>main\<close>
  whose \<open>SHOW SCHEMAS\<close> result has no row, the pass stops after \<open>st.error\<close>, and makes
  no call for the table stage.
\<close>

theorem schema_empty_notice_is_an_error:
  "render_pass
     (answering demo_env ''SHOW SCHEMAS IN main'' (Inr (Some [(''databaseName'', [])])))
     demo_ui False =
   (Inl Stopped,
    [PageConfig,
     StTitle ''Claims Enriched Table Explorer (Horizontal Filters + Analytics)'',
     StColumns 3,
     RunQuery ''SHOW CATALOGS'', TextInput ''Catalog filter'', Selectbox ''Catalog'' [''main''] 0,
     RunQuery ''SHOW SCHEMAS IN main'', StError ''No schemas found.''],
    True)"
  by code_simp

subsection \<open>The candidate column of the table stage\<close>

lemma filter_label_unique:
  "distinct (map fst df) \<Longrightarrow> (l, v) \<in> set df \<Longrightarrow> filter (\<lambda>c. fst c = l) df = [(l, v)]"
proof (induction df)
  case Nil
  then show ?case by simp
next
  case (Cons a df)
  show ?case
  proof (cases "fst a = l")
    case True
    with Cons.prems have "a = (l, v)"
      by (cases a) (auto simp: image_iff)
    moreover from True Cons.prems have "filter (\<lambda>c. fst c = l) df = []"
      by (auto simp: filter_empty_conv image_iff)
    ultimately show ?thesis by simp
  next
    case False
    with Cons show ?thesis by auto
  qed
qed

lemma getitem_unique:
  "distinct (columns df) \<Longrightarrow> (l, v) \<in> set df \<Longrightarrow> getitem df l = Inr (Series v)"
  by (simp add: getitem_def columns_def filter_label_unique)

lemma getitem_named:
  assumes "distinct (columns df)" and "l \<in> set (columns df)"
  shows "getitem df l = Inr (Series (the (map_of df l)))"
proof -
  from assms(2) obtain v where v: "(l, v) \<in> set df"
    by (auto simp: columns_def)
  with assms(1) have "map_of df l = Some v"
    by (simp add: columns_def)
  with getitem_unique [OF assms(1) v] show ?thesis by simp
qed

lemma getitem_nth:
  assumes "distinct (columns df)" and "i < length df"
  shows "getitem df (columns df ! i) = Inr (Series (snd (df ! i)))"
proof -
  from assms(2) have "(fst (df ! i), snd (df ! i)) \<in> set df" by simp
  from getitem_unique [OF assms(1) this] assms(2) show ?thesis
    by (simp add: columns_def)
qed

text \<open>
  Claim C6.  The table stage takes the label \<open>tableName\<close> when the \<open>SHOW TABLES\<close>
  result has a column of that name, and the label at position 1 exactly when it has
  none.  With column labels that are pairwise distinct, the candidates are then the
  non-missing values of the column named \<open>tableName\<close>, and otherwise of the second
  column.
\<close>

theorem table_column_by_name_then_position:
  "tcol df = (if ''tableName'' \<in> set (columns df) then Inr ''tableName'' else columns_at df 1)
   \<and> (distinct (columns df) \<longrightarrow>
        table_list df =
          (if ''tableName'' \<in> set (columns df)
           then Inr (filter (\<lambda>x. x \<noteq> Null) (the (map_of df ''tableName'')))
           else if 1 < length df then Inr (filter (\<lambda>x. x \<noteq> Null) (snd (df ! 1)))
           else Inl IndexError))"
proof (intro conjI impI)
  show "tcol df = (if ''tableName'' \<in> set (columns df) then Inr ''tableName'' else columns_at df 1)"
    by (simp add: tcol_def)
next
  assume d: "distinct (columns df)"
  show "table_list df =
          (if ''tableName'' \<in> set (columns df)
           then Inr (filter (\<lambda>x. x \<noteq> Null) (the (map_of df ''tableName'')))
           else if 1 < length df then Inr (filter (\<lambda>x. x \<noteq> Null) (snd (df ! 1)))
           else Inl IndexError)"
  proof (cases "''tableName'' \<in> set (columns df)")
    case True
    with getitem_named [OF d True] show ?thesis
      by (simp add: table_list_def tcol_def ebind_def dropna_tolist_def)
  next
    case False
    show ?thesis
    proof (cases "1 < length df")
      case True
      with False getitem_nth [OF d True] show ?thesis
        by (simp add: table_list_def tcol_def columns_at_def ebind_def dropna_tolist_def columns_def)
    next
      case no: False
      with False show ?thesis
        by (simp add: table_list_def tcol_def columns_at_def ebind_def columns_def)
    qed
  qed
qed

theorem table_column_by_name_then_position_witness:
  "distinct (columns demo_tables)
   \<and> table_list demo_tables = Inr [Str ''claims_raw'', Str ''claims_enriched'', Str ''members'']
   \<and> distinct (columns [(''namespace'', [Str ''payer'', Str ''payer'']),
                         (''name'', [Str ''claims_raw'', Str ''members''])])
   \<and> table_list [(''namespace'', [Str ''payer'', Str ''payer'']),
                  (''name'', [Str ''claims_raw'', Str ''members''])]
      = Inr [Str ''claims_raw'', Str ''members'']"
proof -
  let ?df = "[(''namespace'', [Str ''payer'', Str ''payer'']),
              (''name'', [Str ''claims_raw'', Str ''members''])]"
  have d1: "distinct (columns demo_tables)" and d2: "distinct (columns ?df)"
    by (simp_all add: columns_def demo_tables_def)
  from table_column_by_name_then_position [of demo_tables, THEN conjunct2, THEN mp, OF d1]
  have "table_list demo_tables = Inr [Str ''claims_raw'', Str ''claims_enriched'', Str ''members'']"
    by (simp add: columns_def demo_tables_def)
  moreover from table_column_by_name_then_position [of ?df, THEN conjunct2, THEN mp, OF d2]
  have "table_list ?df = Inr [Str ''claims_raw'', Str ''members'']"
    by (simp add: columns_def)
  ultimately show ?thesis using d1 d2 by simp
qed

text \<open>
  Claim C10.  Without a column named \<open>tableName\<close>, the candidate list exists only if
  the result has at least two columns; with fewer, reading the label at position 1
  raises \<open>IndexError\<close>, and the table stage ends the pass with it right after its
  query, with no filter input and no select box.
\<close>

theorem positional_fallback_is_partial:
  assumes "''tableName'' \<notin> set (columns df)"
  shows "(length (columns df) < 2 \<longrightarrow> table_list df = Inl IndexError)
   \<and> ((\<exists>cands. table_list df = Inr cands) \<longrightarrow> 2 \<le> length (columns df))
   \<and> (available E c \<and> truthy sc \<and> truthy ss
        \<and> execute E (show_tables (the sc) (the ss)) = Inr (Some df)
        \<and> \<not> df_empty df \<and> length (columns df) < 2 \<longrightarrow>
       table_stage E U sc ss c =
         (Inl (Raised IndexError), [RunQuery (show_tables (the sc) (the ss))], True))"
proof -
  have short: "table_list df = Inl IndexError" if "length (columns df) < 2"
    using assms that by (simp add: table_list_def tcol_def columns_at_def ebind_def)
  have "2 \<le> length (columns df)" if "\<exists>cands. table_list df = Inr cands"
  proof (rule ccontr)
    assume "\<not> 2 \<le> length (columns df)"
    then have "table_list df = Inl IndexError" by (simp add: short)
    with that show False by simp
  qed
  moreover have "table_stage E U sc ss c =
         (Inl (Raised IndexError), [RunQuery (show_tables (the sc) (the ss))], True)"
    if "available E c" "truthy sc" "truthy ss"
      "execute E (show_tables (the sc) (the ss)) = Inr (Some df)"
      "\<not> df_empty df" "length (columns df) < 2"
    using table_stage_raise [of E c sc ss "Some df" IndexError U] that short
    by (simp add: result_frame_def)
  ultimately show ?thesis using short by blast
qed

theorem positional_fallback_is_partial_witness:
  "''tableName'' \<notin> set (columns [(''name'', [Str ''claims_raw''])])
   \<and> table_list [(''name'', [Str ''claims_raw''])] = Inl IndexError
   \<and> table_stage
        (answering demo_env ''SHOW TABLES IN main.payer'' (Inr (Some [(''name'', [Str ''claims_raw''])])))
        demo_ui (Some ''main'') (Some ''payer'') True
      = (Inl (Raised IndexError), [RunQuery (show_tables (the (Some ''main'')) (the (Some ''payer'')))],
         True)"
proof -
  let ?df = "[(''name'', [Str ''claims_raw''])]"
  let ?E = "answering demo_env ''SHOW TABLES IN main.payer'' (Inr (Some ?df))"
  have a: "''tableName'' \<notin> set (columns ?df)"
    by (simp add: columns_def)
  have b: "length (columns ?df) < 2"
    by (simp add: columns_def)
  have h: "available ?E True" "truthy (Some ''main'')" "truthy (Some ''payer'')"
    "execute ?E (show_tables (the (Some ''main'')) (the (Some ''payer''))) = Inr (Some ?df)"
    "\<not> df_empty ?df"
    by code_simp+
  note t = positional_fallback_is_partial [OF a, where E = ?E and c = True and sc = "Some ''main''" and ss = "Some ''payer''"
      and U = demo_ui]
  from t a b h show ?thesis by blast
qed

end
